theory Spec2Isabelle
  imports Main
begin

section \<open>Data model\<close>

text \<open>
  The contact record of \<^verbatim>\<open>types/cadence_state\<close>. Every property other than
  \<^verbatim>\<open>phoneNumber\<close> is an \<^typ>\<open>'a option\<close>: \<open>None\<close> is JavaScript's
  \<^verbatim>\<open>undefined\<close>, which is what a property reads as in the
  \<^verbatim>\<open>Partial<ContactCadenceState>\<close> objects the cadence engine writes.

  Representation choices, used throughout:
  \<^item> an ISO-8601 timestamp string is represented by the instant it denotes, in
    milliseconds since the epoch (\<^verbatim>\<open>new Date(s).getTime()\<close> and
    \<^verbatim>\<open>toISOString()\<close> are then the identity);
  \<^item> \<^verbatim>\<open>attemptCount\<close> and the attempt bounds of the rules are counts, hence
    \<^typ>\<open>nat\<close>; priorities and delays are integral \<^verbatim>\<open>number\<close>s, hence \<^typ>\<open>int\<close>;
  \<^item> a JSON object used as a bag (\<^verbatim>\<open>metadata\<close>) is an association list in
    property order.
\<close>

datatype status =
  PENDING | ACTIVE | PAUSED | COMPLETED_SUCCESS | COMPLETED_EXHAUSTED | ERROR

datatype meta_value = MString string | MNumber int | MTimestamp int | MUndefined

type_synonym json_object = "(string \<times> meta_value) list"

record ContactCadenceState =
  phoneNumber :: string
  leadId :: "string option"
  lastCallSid :: "string option"
  lastCallDisposition :: "string option"
  lastAttemptTimestamp :: "int option"
  nextCallTimestamp :: "int option"
  attemptCount :: "nat option"
  status :: "status option"
  metadata :: "json_object option"
  currentCallSid :: "string option"
  state :: "string option"
  zipcode :: "string option"
  hopperPriority :: "int option"

text \<open>An object literal that sets only \<^verbatim>\<open>phoneNumber\<close>.\<close>

definition blankState :: "string \<Rightarrow> ContactCadenceState" where
  "blankState p =
     \<lparr>phoneNumber = p, leadId = None, lastCallSid = None, lastCallDisposition = None,
      lastAttemptTimestamp = None, nextCallTimestamp = None, attemptCount = None,
      status = None, metadata = None, currentCallSid = None, state = None,
      zipcode = None, hopperPriority = None\<rparr>"

text \<open>Property assignment and object spread on a bag: an existing key keeps its
  position, a new key goes last.\<close>

fun assign :: "string \<Rightarrow> meta_value \<Rightarrow> json_object \<Rightarrow> json_object" where
  "assign k v [] = [(k, v)]"
| "assign k v ((k', v') # kvs) =
     (if k' = k then (k, v) # kvs else (k', v') # assign k v kvs)"

text \<open>\<^verbatim>\<open>x || {}\<close> on an optional bag.\<close>

definition orEmpty :: "json_object option \<Rightarrow> json_object" where
  "orEmpty m = (case m of None \<Rightarrow> [] | Some kvs \<Rightarrow> kvs)"

text \<open>\<^verbatim>\<open>s || d\<close> on an optional string: the empty string is falsy.\<close>

definition orString :: "string option \<Rightarrow> string \<Rightarrow> string" where
  "orString s d = (case s of None \<Rightarrow> d | Some v \<Rightarrow> if v = [] then d else v)"

text \<open>\<^verbatim>\<open>n || 0\<close> on an optional count.\<close>

definition orZero :: "nat option \<Rightarrow> nat" where
  "orZero n = (case n of None \<Rightarrow> 0 | Some v \<Rightarrow> v)"

text \<open>\<^verbatim>\<open>a ?? b\<close>.\<close>

definition nullish :: "'a option \<Rightarrow> 'a option \<Rightarrow> 'a option" where
  "nullish a b = (case a of None \<Rightarrow> b | Some v \<Rightarrow> Some v)"

text \<open>The webhook payload (\<^verbatim>\<open>RetellCallOutcomePayload\<close>), required fields only plus
  \<^verbatim>\<open>call_id\<close>.\<close>

record RetellCallOutcomePayload =
  call_id :: string
  twilio_call_sid :: string
  phone_number :: string
  disposition :: string
  call_ended_timestamp :: int

section \<open>Rule table, segment shape (\<^verbatim>\<open>src/utils/cadence_rules.ts\<close>)\<close>

datatype final_status =
  FINAL_COMPLETED_EXHAUSTED | FINAL_PAUSED | FINAL_COMPLETED_SUCCESS | FINAL_ERROR

fun statusOfFinal :: "final_status \<Rightarrow> status" where
  "statusOfFinal FINAL_COMPLETED_EXHAUSTED = COMPLETED_EXHAUSTED"
| "statusOfFinal FINAL_PAUSED = PAUSED"
| "statusOfFinal FINAL_COMPLETED_SUCCESS = COMPLETED_SUCCESS"
| "statusOfFinal FINAL_ERROR = ERROR"

record CadenceRuleDelay =
  days :: int
  hours :: int
  minutes :: int
  seconds :: int

record CadenceRuleSegment =
  callCountMin :: nat
  callCountMax :: nat
  delay :: CadenceRuleDelay
  hopperPriorityOverride :: "int option"

record CadenceDispositionRule =
  segments :: "CadenceRuleSegment list"
  defaultHopperPriority :: "int option"
  finalStatusOnExhaustion :: final_status

definition minutesDelay :: "int \<Rightarrow> CadenceRuleDelay" where
  "minutesDelay m = \<lparr>days = 0, hours = 0, minutes = m, seconds = 0\<rparr>"

definition seg :: "nat \<Rightarrow> nat \<Rightarrow> CadenceRuleDelay \<Rightarrow> CadenceRuleSegment" where
  "seg lo hi d = \<lparr>callCountMin = lo, callCountMax = hi, delay = d, hopperPriorityOverride = None\<rparr>"

definition dhms :: "int \<Rightarrow> int \<Rightarrow> int \<Rightarrow> int \<Rightarrow> CadenceRuleDelay" where
  "dhms d h m s = \<lparr>days = d, hours = h, minutes = m, seconds = s\<rparr>"

definition rule_NEW_LEAD :: CadenceDispositionRule where
  "rule_NEW_LEAD =
     \<lparr>segments = [seg 0 0 (dhms 0 0 0 0)],
      defaultHopperPriority = Some 100,
      finalStatusOnExhaustion = FINAL_COMPLETED_EXHAUSTED\<rparr>"

definition rule_ANSWERING_MACHINE :: CadenceDispositionRule where
  "rule_ANSWERING_MACHINE =
     \<lparr>segments =
        [seg 1 1 (dhms 0 0 22 4), seg 2 2 (dhms 0 0 11 52), seg 3 3 (dhms 0 0 22 4),
         seg 4 4 (dhms 0 0 11 52), seg 5 5 (dhms 0 1 30 32), seg 6 6 (dhms 0 0 22 4),
         seg 7 7 (dhms 0 1 30 32), seg 8 8 (dhms 0 0 11 52), seg 9 9 (dhms 0 1 30 32),
         seg 10 10 (dhms 0 0 22 4)],
      defaultHopperPriority = Some 50,
      finalStatusOnExhaustion = FINAL_PAUSED\<rparr>"

definition rule_NO_ANSWER :: CadenceDispositionRule where
  "rule_NO_ANSWER =
     \<lparr>segments = [seg 1 1 (minutesDelay 20), seg 2 2 (minutesDelay 120), seg 3 3 (dhms 1 0 0 0)],
      defaultHopperPriority = None,
      finalStatusOnExhaustion = FINAL_COMPLETED_EXHAUSTED\<rparr>"

definition rule_VOICEMAIL_DETECTED :: CadenceDispositionRule where
  "rule_VOICEMAIL_DETECTED =
     \<lparr>segments = [seg 1 1 (dhms 2 0 0 0), seg 2 2 (dhms 5 0 0 0)],
      defaultHopperPriority = Some 40,
      finalStatusOnExhaustion = FINAL_PAUSED\<rparr>"

definition rule_BUSY :: CadenceDispositionRule where
  "rule_BUSY =
     \<lparr>segments = [seg 1 1 (minutesDelay 15), seg 2 2 (minutesDelay 60)],
      defaultHopperPriority = None,
      finalStatusOnExhaustion = FINAL_COMPLETED_EXHAUSTED\<rparr>"

definition rule_ERROR_CALL_FAILED :: CadenceDispositionRule where
  "rule_ERROR_CALL_FAILED =
     \<lparr>segments = [seg 1 2 (minutesDelay 5), seg 3 3 (minutesDelay 30)],
      defaultHopperPriority = None,
      finalStatusOnExhaustion = FINAL_ERROR\<rparr>"

definition rule_ERROR_INITIATION_FAILED :: CadenceDispositionRule where
  "rule_ERROR_INITIATION_FAILED =
     \<lparr>segments = [seg 1 3 (minutesDelay 10)],
      defaultHopperPriority = None,
      finalStatusOnExhaustion = FINAL_ERROR\<rparr>"

definition rule_APPOINTMENT_SCHEDULED_AI :: CadenceDispositionRule where
  "rule_APPOINTMENT_SCHEDULED_AI =
     \<lparr>segments = [seg 1 99 (minutesDelay 0)],
      defaultHopperPriority = None,
      finalStatusOnExhaustion = FINAL_COMPLETED_SUCCESS\<rparr>"

definition rule_CALL_COMPLETED_HUMAN_HANDOFF :: CadenceDispositionRule where
  "rule_CALL_COMPLETED_HUMAN_HANDOFF =
     \<lparr>segments = [seg 1 99 (minutesDelay 0)],
      defaultHopperPriority = None,
      finalStatusOnExhaustion = FINAL_PAUSED\<rparr>"

definition rule_DEFAULT :: CadenceDispositionRule where
  "rule_DEFAULT =
     \<lparr>segments = [seg 1 1 (minutesDelay 5)],
      defaultHopperPriority = None,
      finalStatusOnExhaustion = FINAL_COMPLETED_EXHAUSTED\<rparr>"

text \<open>What a property read \<^verbatim>\<open>obj[key]\<close> on an object literal yields: a property the
  literal defines, a property inherited from \<^verbatim>\<open>Object.prototype\<close> (a function or object:
  truthy, and with none of the properties of a rule), or \<^verbatim>\<open>undefined\<close>.\<close>

datatype 'r property = Defined 'r | Inherited | Undefined

definition objectPrototypeKeys :: "string list" where
  "objectPrototypeKeys =
     [''constructor'', ''__defineGetter__'', ''__defineSetter__'', ''hasOwnProperty'',
      ''__lookupGetter__'', ''__lookupSetter__'', ''isPrototypeOf'', ''propertyIsEnumerable'',
      ''toString'', ''valueOf'', ''__proto__'', ''toLocaleString'']"

definition objectLiteral :: "(string \<Rightarrow> 'r option) \<Rightarrow> string \<Rightarrow> 'r property" where
  "objectLiteral own key =
     (case own key of
        Some r \<Rightarrow> Defined r
      | None \<Rightarrow> if key \<in> set objectPrototypeKeys then Inherited else Undefined)"

text \<open>The object literal returned by \<^verbatim>\<open>getCadenceRules()\<close>.\<close>

definition cadenceRulesLiteral :: "string \<Rightarrow> CadenceDispositionRule option" where
  "cadenceRulesLiteral key =
     (if key = ''NEW_LEAD'' then Some rule_NEW_LEAD
      else if key = ''ANSWERING_MACHINE'' then Some rule_ANSWERING_MACHINE
      else if key = ''NO_ANSWER'' then Some rule_NO_ANSWER
      else if key = ''VOICEMAIL_DETECTED'' then Some rule_VOICEMAIL_DETECTED
      else if key = ''BUSY'' then Some rule_BUSY
      else if key = ''ERROR_CALL_FAILED'' then Some rule_ERROR_CALL_FAILED
      else if key = ''ERROR_INITIATION_FAILED'' then Some rule_ERROR_INITIATION_FAILED
      else if key = ''APPOINTMENT_SCHEDULED_AI'' then Some rule_APPOINTMENT_SCHEDULED_AI
      else if key = ''CALL_COMPLETED_HUMAN_HANDOFF'' then Some rule_CALL_COMPLETED_HUMAN_HANDOFF
      else if key = ''DEFAULT'' then Some rule_DEFAULT
      else None)"

text \<open>\<^verbatim>\<open>getCadenceRules()[key]\<close>.\<close>

definition getCadenceRules :: "string \<Rightarrow> CadenceDispositionRule property" where
  "getCadenceRules key = objectLiteral cadenceRulesLiteral key"

text \<open>\<^verbatim>\<open>rules[key] || rules.DEFAULT\<close>, for any table \<open>rules\<close> with default \<open>dflt\<close>: the
  default is taken only when the read is \<^verbatim>\<open>undefined\<close>; an inherited property is kept.\<close>

datatype 'r resolved = Rule 'r | NonRule

definition ruleOrDefault :: "(string \<Rightarrow> 'r property) \<Rightarrow> 'r \<Rightarrow> string \<Rightarrow> 'r resolved" where
  "ruleOrDefault rules dflt key =
     (case rules key of Defined r \<Rightarrow> Rule r | Inherited \<Rightarrow> NonRule | Undefined \<Rightarrow> Rule dflt)"

text \<open>Reading a property of the resolved value: a value that is not a rule has none of
  them, so the read is \<^verbatim>\<open>undefined\<close>. \<open>readOptProp\<close> is for an optional property.\<close>

definition readProp :: "('r \<Rightarrow> 'a) \<Rightarrow> 'r resolved \<Rightarrow> 'a option" where
  "readProp f v = (case v of Rule r \<Rightarrow> Some (f r) | NonRule \<Rightarrow> None)"

definition readOptProp :: "('r \<Rightarrow> 'a option) \<Rightarrow> 'r resolved \<Rightarrow> 'a option" where
  "readOptProp f v = (case v of Rule r \<Rightarrow> f r | NonRule \<Rightarrow> None)"

text \<open>The errors the handlers can throw: reading a property of \<^verbatim>\<open>undefined\<close> is a
  \<^verbatim>\<open>TypeError\<close>; assigning to an identifier that is declared nowhere is, in the strict
  code of a module, a \<^verbatim>\<open>ReferenceError\<close>.\<close>

datatype js_error = TypeError | ReferenceError

section \<open>Outcome webhook, segment rules (\<^verbatim>\<open>src/functions/retell_call_outcome_webhook.ts\<close>)\<close>

text \<open>\<^verbatim>\<open>String.prototype.split(',')\<close>.\<close>

fun splitComma :: "string \<Rightarrow> string list" where
  "splitComma [] = [[]]"
| "splitComma (c # cs) =
     (if c = CHR '','' then [] # splitComma cs
      else (case splitComma cs of [] \<Rightarrow> [[c]] | w # ws \<Rightarrow> (c # w) # ws))"

text \<open>\<^verbatim>\<open>(context.RETELL_HANDOFF_DISPOSITIONS || "CALL_COMPLETED_HUMAN_HANDOFF,CALL_TRANSFERRED").split(',')\<close>:
  the argument is the environment variable.\<close>

definition handoffDispositions :: "string option \<Rightarrow> string list" where
  "handoffDispositions env =
     splitComma (orString env ''CALL_COMPLETED_HUMAN_HANDOFF,CALL_TRANSFERRED'')"

text \<open>The process time zone, as \<^verbatim>\<open>Date\<close> uses it: \<open>toLocal\<close> takes an instant to its
  local time value, \<open>fromLocal\<close> takes a local time value to the instant it denotes.\<close>

record TimeZone =
  toLocal :: "int \<Rightarrow> int"
  fromLocal :: "int \<Rightarrow> int"

text \<open>A setter called with the current value of its component plus an amount, as in
  \<^verbatim>\<open>d.setMinutes(d.getMinutes() + m)\<close>: the local time value moves by the amount (in
  milliseconds) and is converted back.\<close>

definition setLocal :: "TimeZone \<Rightarrow> int \<Rightarrow> int \<Rightarrow> int" where
  "setLocal z amount t = fromLocal z (toLocal z t + amount)"

text \<open>The four setters in the order of the source: \<^verbatim>\<open>setDate\<close>, \<^verbatim>\<open>setHours\<close>,
  \<^verbatim>\<open>setMinutes\<close>, \<^verbatim>\<open>setSeconds\<close>, applied to the clock reading \<open>t\<close>.\<close>

definition addDelay :: "TimeZone \<Rightarrow> int \<Rightarrow> CadenceRuleDelay \<Rightarrow> int" where
  "addDelay z t d =
     setLocal z (seconds d * 1000)
       (setLocal z (minutes d * 60000)
          (setLocal z (hours d * 3600000)
             (setLocal z (days d * 86400000) t)))"

text \<open>The segment predicate of \<^verbatim>\<open>currentRule.segments.find(...)\<close>.\<close>

definition segmentMatches :: "nat \<Rightarrow> CadenceRuleSegment \<Rightarrow> bool" where
  "segmentMatches n s \<longleftrightarrow> callCountMin s \<le> n \<and> n \<le> callCountMax s"

text \<open>The status decision, lines 148--176 (initial call) and 244--272 (cadence call) of
  the handler; the two blocks differ in the name of the state variable and in the
  \<^verbatim>\<open>|| 0\<close> the first applies to the attempt count, which is set at both places. \<open>z\<close> is
  the process time zone, \<open>now\<close> the reading of \<^verbatim>\<open>new Date()\<close> taken when a segment
  matches; \<open>handoff\<close> is \<^verbatim>\<open>handoffDispositions\<close>, \<open>key\<close> is \<^verbatim>\<open>dispositionRuleKey\<close>,
  \<open>currentRule\<close> the value of \<^verbatim>\<open>rules[key] || rules.DEFAULT\<close>.\<close>

definition applyCadenceRule ::
  "TimeZone \<Rightarrow> string list \<Rightarrow> int \<Rightarrow> string \<Rightarrow> CadenceDispositionRule resolved
     \<Rightarrow> ContactCadenceState \<Rightarrow> js_error + ContactCadenceState" where
  "applyCadenceRule z handoff now key currentRule c =
     (if key = ''APPOINTMENT_SCHEDULED_AI''
         \<or> readProp finalStatusOnExhaustion currentRule = Some FINAL_COMPLETED_SUCCESS
      then Inr (c\<lparr>status := Some COMPLETED_SUCCESS, nextCallTimestamp := None,
                   hopperPriority := None\<rparr>)
      else if key \<in> set handoff
      then Inr (c\<lparr>status := Some PAUSED, nextCallTimestamp := None\<rparr>)
      else (case readProp segments currentRule of
              None \<Rightarrow> Inl TypeError
            | Some segs \<Rightarrow>
                (case find (segmentMatches (orZero (attemptCount c))) segs of
                   Some matchedSegment \<Rightarrow>
                     Inr (c\<lparr>status := Some ACTIVE,
                            nextCallTimestamp := Some (addDelay z now (delay matchedSegment)),
                            hopperPriority :=
                              (case hopperPriorityOverride matchedSegment of
                                 None \<Rightarrow> hopperPriority c | Some p \<Rightarrow> Some p)\<rparr>)
                 | None \<Rightarrow>
                     Inr (c\<lparr>status :=
                              map_option statusOfFinal
                                (readProp finalStatusOnExhaustion currentRule),
                            nextCallTimestamp := None, hopperPriority := None\<rparr>))))"

text \<open>\<^verbatim>\<open>contactState = v\<close> in this file: no \<^verbatim>\<open>contactState\<close> is declared in the handler
  or the module (lines 194, 220 and 223 only assign to it), so the assignment throws.\<close>

definition assignContactState :: "ContactCadenceState \<Rightarrow> js_error + ContactCadenceState" where
  "assignContactState v = Inl ReferenceError"

text \<open>The cadence-call branch, lines 219--272: \<open>fetched\<close> is \<^verbatim>\<open>fetchedContactState\<close>
  (\<open>None\<close> for \<^verbatim>\<open>null\<close>), \<open>stamp\<close> the clock reading stored as
  \<^verbatim>\<open>lastWebhookTimestamp\<close>, \<open>now\<close> the later reading used for scheduling. The result is
  the state sent to \<^verbatim>\<open>addOrUpdate\<close>, or the error thrown; the error is caught by the
  handler, which answers with status 500.\<close>

definition cadenceCallOutcome ::
  "TimeZone \<Rightarrow> string list \<Rightarrow> int \<Rightarrow> int \<Rightarrow> ContactCadenceState option
     \<Rightarrow> RetellCallOutcomePayload \<Rightarrow> js_error + ContactCadenceState" where
  "cadenceCallOutcome z handoff stamp now fetched event =
     (case assignContactState
             (case fetched of
                Some f \<Rightarrow> f\<lparr>attemptCount := Some (orZero (attemptCount f) + 1)\<rparr>
              | None \<Rightarrow> (blankState (phone_number event))
                          \<lparr>attemptCount := Some 1, status := Some PENDING,
                           metadata := Some []\<rparr>) of
        Inl err \<Rightarrow> Inl err
      | Inr c0 \<Rightarrow>
          (let c1 = c0\<lparr>lastCallSid := Some (twilio_call_sid event),
                       lastCallDisposition := Some (disposition event),
                       lastAttemptTimestamp := Some (call_ended_timestamp event),
                       currentCallSid := None,
                       metadata := Some (assign ''lastWebhookTimestamp'' (MTimestamp stamp)
                                    (assign ''retellCallId'' (MString (call_id event))
                                       (orEmpty (metadata c0))))\<rparr>;
               dispositionRuleKey = orString (lastCallDisposition c1) ''DEFAULT'';
               currentRule = ruleOrDefault getCadenceRules rule_DEFAULT dispositionRuleKey;
               c2 = c1\<lparr>hopperPriority :=
                         nullish (hopperPriority c1)
                           (readOptProp defaultHopperPriority currentRule)\<rparr>
           in applyCadenceRule z handoff now dispositionRuleKey currentRule c2))"

text \<open>The row of table \<^verbatim>\<open>leads\<close> as the initial-call branch reads it.\<close>

record LeadRow =
  lead_phone_number :: string
  lead_metadata :: "json_object option"
  first_name :: "string option"
  last_name :: "string option"
  lead_state :: "string option"
  zip_code :: "string option"
  hopper_priority :: "int option"

definition optString :: "string option \<Rightarrow> meta_value" where
  "optString s = (case s of None \<Rightarrow> MUndefined | Some v \<Rightarrow> MString v)"

text \<open>\<^verbatim>\<open>String(n)\<close> for a non-negative integer.\<close>

fun stringOfNat :: "nat \<Rightarrow> string" where
  "stringOfNat n =
     (if n < 10 then [char_of (48 + n)]
      else stringOfNat (n div 10) @ [char_of (48 + n mod 10)])"

declare stringOfNat.simps [simp del]

text \<open>The initial-call branch, lines 116--176: \<open>hopperId\<close> and \<open>leadIdDb\<close> are the
  numbers parsed from the tracking id, \<open>leadData\<close> the fetched lead row. The result is
  the state sent to \<^verbatim>\<open>addOrUpdate\<close> at line 182, or the error thrown before it. (After
  the state is sent, the assignment to \<^verbatim>\<open>contactState\<close> at line 194 throws, and the
  handler answers with status 500 without the analytics and task steps.)\<close>

definition initialCallOutcome ::
  "TimeZone \<Rightarrow> string list \<Rightarrow> int \<Rightarrow> nat \<Rightarrow> nat \<Rightarrow> LeadRow \<Rightarrow> RetellCallOutcomePayload
     \<Rightarrow> js_error + ContactCadenceState" where
  "initialCallOutcome z handoff now hopperId leadIdDb leadData event =
     (let c0 = \<lparr>phoneNumber = lead_phone_number leadData,
                leadId = Some (stringOfNat leadIdDb),
                lastCallSid = None,
                lastCallDisposition = Some (disposition event),
                lastAttemptTimestamp = Some (call_ended_timestamp event),
                nextCallTimestamp = None,
                attemptCount = Some 1,
                status = Some PENDING,
                metadata = Some (assign ''lastName'' (optString (last_name leadData))
                            (assign ''firstName'' (optString (first_name leadData))
                               (assign ''initialCallHopperId'' (MNumber (int hopperId))
                                  (assign ''retellCallId'' (MString (call_id event))
                                     (orEmpty (lead_metadata leadData)))))),
                currentCallSid = None,
                state = lead_state leadData,
                zipcode = zip_code leadData,
                hopperPriority = hopper_priority leadData\<rparr>;
          dispositionRuleKey = orString (lastCallDisposition c0) ''DEFAULT'';
          currentRule = ruleOrDefault getCadenceRules rule_DEFAULT dispositionRuleKey;
          c1 = c0\<lparr>hopperPriority :=
                    nullish (readOptProp defaultHopperPriority currentRule)
                      (hopperPriority c0)\<rparr>
      in applyCadenceRule z handoff now dispositionRuleKey currentRule c1)"

section \<open>Rule table and outcome webhook, flat shape\<close>

text \<open>The earlier revision of the rule module: a rule has \<^verbatim>\<open>maxAttempts\<close> and a list
  \<^verbatim>\<open>attempts\<close> of per-attempt delays.\<close>

record CadenceAttemptRule =
  delayMinutes :: int

record FlatDispositionRule =
  maxAttempts :: nat
  attempts :: "CadenceAttemptRule list"
  flatFinalStatusOnExhaustion :: final_status

definition flatRule :: "nat \<Rightarrow> int list \<Rightarrow> final_status \<Rightarrow> FlatDispositionRule" where
  "flatRule m ds f =
     \<lparr>maxAttempts = m, attempts = map (\<lambda>d. \<lparr>delayMinutes = d\<rparr>) ds,
      flatFinalStatusOnExhaustion = f\<rparr>"

definition flat_DEFAULT :: FlatDispositionRule where
  "flat_DEFAULT = flatRule 1 [5] FINAL_COMPLETED_EXHAUSTED"

definition flatRulesLiteral :: "string \<Rightarrow> FlatDispositionRule option" where
  "flatRulesLiteral key =
     (if key = ''NEW_LEAD''
        then Some (flatRule 5 [0, 60, 24 * 60, 48 * 60, 72 * 60] FINAL_COMPLETED_EXHAUSTED)
      else if key = ''NO_ANSWER''
        then Some (flatRule 3 [20, 120, 24 * 60] FINAL_COMPLETED_EXHAUSTED)
      else if key = ''VOICEMAIL_DETECTED''
        then Some (flatRule 2 [2 * 24 * 60, 5 * 24 * 60] FINAL_PAUSED)
      else if key = ''BUSY'' then Some (flatRule 2 [15, 60] FINAL_COMPLETED_EXHAUSTED)
      else if key = ''ERROR_CALL_FAILED'' then Some (flatRule 2 [5, 30] FINAL_ERROR)
      else if key = ''APPOINTMENT_SCHEDULED_AI''
        then Some (flatRule 1 [0] FINAL_COMPLETED_SUCCESS)
      else if key = ''CALL_COMPLETED_HUMAN_HANDOFF'' then Some (flatRule 1 [0] FINAL_PAUSED)
      else if key = ''DEFAULT'' then Some flat_DEFAULT
      else None)"

text \<open>\<^verbatim>\<open>getCadenceRules()[key]\<close> for the flat table.\<close>

definition getCadenceRulesFlat :: "string \<Rightarrow> FlatDispositionRule property" where
  "getCadenceRulesFlat key = objectLiteral flatRulesLiteral key"

text \<open>\<^verbatim>\<open>xs[i].delayMinutes\<close> reads a property of \<^verbatim>\<open>undefined\<close> when \<open>i\<close> is not an index
  of the list.\<close>

definition attemptAt :: "CadenceAttemptRule list \<Rightarrow> nat \<Rightarrow> js_error + CadenceAttemptRule" where
  "attemptAt xs i = (if i < length xs then Inr (xs ! i) else Inl TypeError)"

text \<open>\<^verbatim>\<open>n >= rule.maxAttempts\<close> for a count \<open>n\<close>: false when the property is
  \<^verbatim>\<open>undefined\<close>.\<close>

definition countAtLeast :: "nat \<Rightarrow> nat option \<Rightarrow> bool" where
  "countAtLeast n limit = (case limit of None \<Rightarrow> False | Some m \<Rightarrow> m \<le> n)"

text \<open>Steps 2 and 3 of the earlier revision of the webhook handler (which declares
  \<^verbatim>\<open>contactState\<close>), over a flat rule table \<open>rules\<close> with default \<open>dflt\<close>. \<open>stamp\<close> is
  the clock reading stored in the metadata, \<open>now\<close> the reading of \<^verbatim>\<open>Date.now()\<close> used
  for scheduling. The result is the state sent to \<^verbatim>\<open>addOrUpdate\<close>, or the error thrown:
  \<^verbatim>\<open>rule.attempts.length\<close> throws when the resolved value has no \<^verbatim>\<open>attempts\<close>.\<close>

definition flatCallOutcome ::
  "(string \<Rightarrow> FlatDispositionRule property) \<Rightarrow> FlatDispositionRule \<Rightarrow> string list
     \<Rightarrow> int \<Rightarrow> int \<Rightarrow> ContactCadenceState option \<Rightarrow> RetellCallOutcomePayload
     \<Rightarrow> js_error + ContactCadenceState" where
  "flatCallOutcome rules dflt handoff stamp now fetched event =
     (let n = (case fetched of Some f \<Rightarrow> orZero (attemptCount f) + 1 | None \<Rightarrow> 1);
          c0 = (case fetched of
                  Some f \<Rightarrow> f\<lparr>attemptCount := Some n\<rparr>
                | None \<Rightarrow> (blankState (phone_number event))
                            \<lparr>attemptCount := Some n, status := Some PENDING\<rparr>);
          c1 = c0\<lparr>lastCallSid := Some (twilio_call_sid event),
                  lastCallDisposition := Some (disposition event),
                  lastAttemptTimestamp := Some (call_ended_timestamp event),
                  currentCallSid := None,
                  metadata := Some (assign ''lastWebhookTimestamp'' (MTimestamp stamp)
                               (assign ''retellCallId'' (MString (call_id event))
                                  (orEmpty (metadata c0))))\<rparr>;
          dispositionKey = orString (lastCallDisposition c1) ''DEFAULT'';
          effectiveRuleKey =
            (if n = 1 \<and> fetched = None then ''NEW_LEAD'' else dispositionKey);
          rule = ruleOrDefault rules dflt effectiveRuleKey
      in if readProp flatFinalStatusOnExhaustion rule = Some FINAL_COMPLETED_SUCCESS
            \<and> readProp maxAttempts rule = Some 1
         then Inr (c1\<lparr>status := Some COMPLETED_SUCCESS, nextCallTimestamp := None\<rparr>)
         else if disposition event \<in> set handoff
         then Inr (c1\<lparr>status := Some PAUSED, nextCallTimestamp := None\<rparr>)
         else if countAtLeast n (readProp maxAttempts rule)
         then Inr (c1\<lparr>status :=
                        map_option statusOfFinal (readProp flatFinalStatusOnExhaustion rule),
                      nextCallTimestamp := None\<rparr>)
         else (case readProp attempts rule of
                 None \<Rightarrow> Inl TypeError
               | Some delays \<Rightarrow>
                   if n < length delays
                   then (case attemptAt delays n of
                           Inl err \<Rightarrow> Inl err
                         | Inr attempt \<Rightarrow>
                             Inr (c1\<lparr>status := Some ACTIVE,
                                    nextCallTimestamp :=
                                      Some (now + delayMinutes attempt * 60000)\<rparr>))
                   else Inr (c1\<lparr>status :=
                                 map_option statusOfFinal
                                   (readProp flatFinalStatusOnExhaustion rule),
                               nextCallTimestamp := None\<rparr>)))"

section \<open>Contact state store (\<^verbatim>\<open>manage_contact_state\<close>)\<close>

text \<open>The Sync service as the functions use it: one document per phone number and the
  list \<^verbatim>\<open>active_cadence_contacts\<close>. Fetching a document answers with its data, with
  status 404, or with another error.\<close>

datatype sync_error = SyncError

datatype doc_result = Found ContactCadenceState | NotFound | Unavailable

record SyncListItem =
  dataPhoneNumber :: "string option"

record SyncService =
  documents :: "string \<Rightarrow> doc_result"
  listItems :: "SyncListItem list"

definition getContactState ::
  "(string \<Rightarrow> doc_result) \<Rightarrow> string \<Rightarrow> sync_error + ContactCadenceState option" where
  "getContactState docs phone =
     (case docs phone of
        Found s \<Rightarrow> Inr (Some s)
      | NotFound \<Rightarrow> Inr None
      | Unavailable \<Rightarrow> Inl SyncError)"

text \<open>\<^verbatim>\<open>['ACTIVE', 'PENDING'].includes(status)\<close> and the second list of
  \<^verbatim>\<open>addOrUpdateContact\<close>.\<close>

definition isCallable :: "status option \<Rightarrow> bool" where
  "isCallable st \<longleftrightarrow> st = Some ACTIVE \<or> st = Some PENDING"

definition isInactive :: "status option \<Rightarrow> bool" where
  "isInactive st \<longleftrightarrow>
     st = Some COMPLETED_SUCCESS \<or> st = Some COMPLETED_EXHAUSTED \<or> st = Some ERROR
       \<or> st = Some PAUSED"

text \<open>\<^verbatim>\<open>addOrUpdateContact\<close> (the same in both revisions of the file). The document
  update is called with \<^verbatim>\<open>data: state\<close>, the object passed in: the stored data
  becomes that object. \<open>docOk\<close> and \<open>listOk\<close> say whether the document update and the
  list operation succeed; a list failure is logged only and is taken to leave the list
  as it was. Removing every item whose
  phone number matches, each by its index, is a filter. The result pairs the new
  service state with \<^verbatim>\<open>success\<close>.\<close>

definition addOrUpdateContact ::
  "bool \<Rightarrow> bool \<Rightarrow> SyncService \<Rightarrow> ContactCadenceState \<Rightarrow> SyncService \<times> bool" where
  "addOrUpdateContact docOk listOk svc st =
     (if \<not> docOk then (svc, False)
      else
        (let svc1 = svc\<lparr>documents := (documents svc)(phoneNumber st := Found st)\<rparr>
         in if \<not> listOk then (svc1, True)
            else if isCallable (status st)
            then (svc1\<lparr>listItems :=
                         listItems svc1 @ [\<lparr>dataPhoneNumber = Some (phoneNumber st)\<rparr>]\<rparr>,
                  True)
            else if isInactive (status st)
            then (svc1\<lparr>listItems :=
                         filter (\<lambda>item. dataPhoneNumber item \<noteq> Some (phoneNumber st))
                           (listItems svc1)\<rparr>,
                  True)
            else (svc1, True)))"

text \<open>A page of list items: its items, whether \<^verbatim>\<open>page.meta.key\<close> is truthy, and the
  next page when \<^verbatim>\<open>page.hasNextPage\<close>.\<close>

datatype page = Page "SyncListItem list" bool "page option"

datatype list_response = ListPage page | ListNotFound | ListUnavailable

text \<open>The body of \<^verbatim>\<open>for (const item of page)\<close> in \<^verbatim>\<open>src/functions/manage_contact_state.ts\<close>:
  the accumulator is \<^verbatim>\<open>dueContacts\<close> and \<^verbatim>\<open>processedPhoneNumbers\<close>.\<close>

definition scanItem ::
  "(string \<Rightarrow> doc_result) \<Rightarrow> int \<Rightarrow> ContactCadenceState list \<times> string set \<Rightarrow> SyncListItem
     \<Rightarrow> ContactCadenceState list \<times> string set" where
  "scanItem docs asOf acc item =
     (case dataPhoneNumber item of
        None \<Rightarrow> acc
      | Some contactPhoneNumber \<Rightarrow>
          if contactPhoneNumber = [] \<or> contactPhoneNumber \<in> snd acc then acc
          else
            (let seen = insert contactPhoneNumber (snd acc)
             in case getContactState docs contactPhoneNumber of
                  Inl e \<Rightarrow> (fst acc, seen)
                | Inr None \<Rightarrow> (fst acc, seen)
                | Inr (Some contactState) \<Rightarrow>
                    (case nextCallTimestamp contactState of
                       None \<Rightarrow> (fst acc, seen)
                     | Some nextCallDate \<Rightarrow>
                         if isCallable (status contactState) \<and> nextCallDate \<le> asOf
                         then (fst acc @ [contactState], seen)
                         else (fst acc, seen))))"

fun scanPages ::
  "(string \<Rightarrow> doc_result) \<Rightarrow> int \<Rightarrow> ContactCadenceState list \<times> string set \<Rightarrow> page
     \<Rightarrow> ContactCadenceState list \<times> string set" where
  "scanPages docs asOf acc (Page its key None) = foldl (scanItem docs asOf) acc its"
| "scanPages docs asOf acc (Page its key (Some nxt)) =
     scanPages docs asOf (foldl (scanItem docs asOf) acc its) nxt"

text \<open>\<^verbatim>\<open>queryContactsDueForCall\<close> of \<^verbatim>\<open>src/functions/manage_contact_state.ts\<close>; a list that
  does not exist gives the empty result, another error is thrown again.\<close>

definition queryContactsDueForCall ::
  "(string \<Rightarrow> doc_result) \<Rightarrow> list_response \<Rightarrow> int
     \<Rightarrow> sync_error + ContactCadenceState list" where
  "queryContactsDueForCall docs resp asOf =
     (case resp of
        ListPage p \<Rightarrow> Inr (fst (scanPages docs asOf ([], {}) p))
      | ListNotFound \<Rightarrow> Inr []
      | ListUnavailable \<Rightarrow> Inl SyncError)"

subsection \<open>The revision with prioritisation\<close>

definition MAX_SAFE_INTEGER :: int where
  "MAX_SAFE_INTEGER = 9007199254740991"

text \<open>The loop body of the second revision: it collects every active or pending contact
  into \<^verbatim>\<open>allActiveContacts\<close>.\<close>

definition collectItem ::
  "(string \<Rightarrow> doc_result) \<Rightarrow> ContactCadenceState list \<times> string set \<Rightarrow> SyncListItem
     \<Rightarrow> ContactCadenceState list \<times> string set" where
  "collectItem docs acc item =
     (case dataPhoneNumber item of
        None \<Rightarrow> acc
      | Some contactPhoneNumber \<Rightarrow>
          if contactPhoneNumber = [] then acc
          else if contactPhoneNumber \<in> snd acc then acc
          else
            (let seen = insert contactPhoneNumber (snd acc)
             in case getContactState docs contactPhoneNumber of
                  Inl e \<Rightarrow> (fst acc, seen)
                | Inr None \<Rightarrow> (fst acc, seen)
                | Inr (Some contactState) \<Rightarrow>
                    if isCallable (status contactState)
                    then (fst acc @ [contactState], seen)
                    else (fst acc, seen)))"

text \<open>The loop continues only while \<^verbatim>\<open>page.hasNextPage && page.meta.key\<close>.\<close>

fun collectPages ::
  "(string \<Rightarrow> doc_result) \<Rightarrow> ContactCadenceState list \<times> string set \<Rightarrow> page
     \<Rightarrow> ContactCadenceState list \<times> string set" where
  "collectPages docs acc (Page its key None) = foldl (collectItem docs) acc its"
| "collectPages docs acc (Page its key (Some nxt)) =
     (if key then collectPages docs (foldl (collectItem docs) acc its) nxt
      else foldl (collectItem docs) acc its)"

text \<open>The comparator passed to \<^verbatim>\<open>allActiveContacts.sort\<close>.\<close>

definition orMax :: "int option \<Rightarrow> int" where
  "orMax v = (case v of None \<Rightarrow> MAX_SAFE_INTEGER | Some x \<Rightarrow> x)"

definition compareContacts :: "ContactCadenceState \<Rightarrow> ContactCadenceState \<Rightarrow> int" where
  "compareContacts a b =
     (let priorityA = orMax (hopperPriority a); priorityB = orMax (hopperPriority b)
      in if priorityA \<noteq> priorityB then priorityA - priorityB
         else orMax (nextCallTimestamp a) - orMax (nextCallTimestamp b))"

text \<open>\<^verbatim>\<open>Array.prototype.sort\<close> with a comparator: a stable sort, here by insertion.\<close>

fun insertBy :: "('a \<Rightarrow> 'a \<Rightarrow> int) \<Rightarrow> 'a \<Rightarrow> 'a list \<Rightarrow> 'a list" where
  "insertBy cmp x [] = [x]"
| "insertBy cmp x (y # ys) =
     (if cmp x y \<le> 0 then x # y # ys else y # insertBy cmp x ys)"

fun sortBy :: "('a \<Rightarrow> 'a \<Rightarrow> int) \<Rightarrow> 'a list \<Rightarrow> 'a list" where
  "sortBy cmp [] = []"
| "sortBy cmp (x # xs) = insertBy cmp x (sortBy cmp xs)"

definition isDue :: "int \<Rightarrow> ContactCadenceState \<Rightarrow> bool" where
  "isDue asOf contactState =
     (case nextCallTimestamp contactState of
        None \<Rightarrow> False
      | Some nextCallDate \<Rightarrow> nextCallDate \<le> asOf)"

definition queryContactsDueForCallSorted ::
  "(string \<Rightarrow> doc_result) \<Rightarrow> list_response \<Rightarrow> int
     \<Rightarrow> sync_error + ContactCadenceState list" where
  "queryContactsDueForCallSorted docs resp asOf =
     (case resp of
        ListPage p \<Rightarrow>
          Inr (filter (isDue asOf)
                 (sortBy compareContacts (fst (collectPages docs ([], {}) p))))
      | ListNotFound \<Rightarrow> Inr []
      | ListUnavailable \<Rightarrow> Inl SyncError)"

section \<open>Cadence engine (the scheduler loop)\<close>

text \<open>The engine reads two properties of a rule, \<^verbatim>\<open>maxAttempts\<close> and
  \<^verbatim>\<open>finalStatusOnExhaustion\<close>. A property the rule object does not have reads as
  \<^verbatim>\<open>undefined\<close>: that is \<^verbatim>\<open>maxAttempts\<close> on a rule of the segment shape, and both
  properties on an inherited value that is not a rule.\<close>

record EngineRule =
  ruleMaxAttempts :: "nat option"
  ruleFinalStatus :: final_status

definition segmentRuleView :: "CadenceDispositionRule \<Rightarrow> EngineRule" where
  "segmentRuleView r =
     \<lparr>ruleMaxAttempts = None, ruleFinalStatus = finalStatusOnExhaustion r\<rparr>"

definition flatRuleView :: "FlatDispositionRule \<Rightarrow> EngineRule" where
  "flatRuleView r =
     \<lparr>ruleMaxAttempts = Some (maxAttempts r),
      ruleFinalStatus = flatFinalStatusOnExhaustion r\<rparr>"

definition segmentEngineRules :: "string \<Rightarrow> EngineRule property" where
  "segmentEngineRules key = map_property segmentRuleView (getCadenceRules key)"

definition flatEngineRules :: "string \<Rightarrow> EngineRule property" where
  "flatEngineRules key = map_property flatRuleView (getCadenceRulesFlat key)"

text \<open>\<^verbatim>\<open>contact.attemptCount >= dispositionRule.maxAttempts\<close>: a comparison with
  \<^verbatim>\<open>undefined\<close> on either side is false.\<close>

definition reachedMax :: "nat option \<Rightarrow> nat option \<Rightarrow> bool" where
  "reachedMax count limit =
     (case count of
        None \<Rightarrow> False
      | Some a \<Rightarrow> (case limit of None \<Rightarrow> False | Some m \<Rightarrow> m \<le> a))"

record CallParameters =
  To :: string
  From :: string
  agent_id :: string
  CallSid :: string
  lead_id :: "string option"

text \<open>The invocations of other functions the engine issues, in order.\<close>

datatype invocation = AddOrUpdate ContactCadenceState | StartCall CallParameters

datatype start_result = StartOk | StartRejected | StartThrows

text \<open>What the environment answers while one contact is processed: whether the
  first \<^verbatim>\<open>addOrUpdate\<close> invocation returns, the reading of \<^verbatim>\<open>Date.now()\<close>, and the result
  of \<^verbatim>\<open>start_call\<close>.\<close>

record ContactEnv =
  persistOk :: bool
  dateNow :: nat
  startCall :: start_result

record EngineContext =
  CADENCE_CALLER_ID :: string
  RETELL_AGENT_ID_MEDICARE :: string

record EngineCounts =
  processedContacts :: nat
  initiatedCalls :: nat
  errorsEncountered :: nat

definition engineRuleKey :: "ContactCadenceState \<Rightarrow> string" where
  "engineRuleKey contact =
     (if attemptCount contact = Some 0 \<and> orString (lastCallDisposition contact) [] = []
      then ''NEW_LEAD''
      else orString (lastCallDisposition contact) ''DEFAULT'')"

definition finalState ::
  "EngineRule resolved \<Rightarrow> ContactCadenceState \<Rightarrow> ContactCadenceState" where
  "finalState dispositionRule contact =
     (blankState (phoneNumber contact))
       \<lparr>status := map_option statusOfFinal (readProp ruleFinalStatus dispositionRule),
        nextCallTimestamp := None, currentCallSid := None\<rparr>"

definition newCurrentCallSid :: "nat \<Rightarrow> ContactCadenceState \<Rightarrow> string" where
  "newCurrentCallSid t contact = ''TEMP_'' @ stringOfNat t @ ''_'' @ phoneNumber contact"

definition stateUpdateForCallAttempt :: "nat \<Rightarrow> ContactCadenceState \<Rightarrow> ContactCadenceState" where
  "stateUpdateForCallAttempt t contact =
     (blankState (phoneNumber contact))\<lparr>currentCallSid := Some (newCurrentCallSid t contact)\<rparr>"

definition revertState :: "ContactCadenceState \<Rightarrow> ContactCadenceState" where
  "revertState contact =
     (blankState (phoneNumber contact))\<lparr>currentCallSid := None, status := Some ERROR\<rparr>"

definition callParameters ::
  "EngineContext \<Rightarrow> nat \<Rightarrow> ContactCadenceState \<Rightarrow> CallParameters" where
  "callParameters ctx t contact =
     \<lparr>To = phoneNumber contact, From = CADENCE_CALLER_ID ctx,
      agent_id = RETELL_AGENT_ID_MEDICARE ctx, CallSid = newCurrentCallSid t contact,
      lead_id = leadId contact\<rparr>"

text \<open>One iteration of \<^verbatim>\<open>for (const contact of dueContacts)\<close>: the invocations issued
  for the contact and the counters after it.\<close>

definition processContact ::
  "EngineContext \<Rightarrow> (string \<Rightarrow> EngineRule property) \<Rightarrow> EngineRule \<Rightarrow> EngineCounts
     \<Rightarrow> ContactCadenceState \<times> ContactEnv \<Rightarrow> invocation list \<times> EngineCounts" where
  "processContact ctx rules dflt counts ce =
     (let contact = fst ce; env = snd ce;
          counts1 = counts\<lparr>processedContacts := processedContacts counts + 1\<rparr>;
          failed = counts1\<lparr>errorsEncountered := errorsEncountered counts1 + 1\<rparr>;
          dispositionRule = ruleOrDefault rules dflt (engineRuleKey contact)
      in if reachedMax (attemptCount contact) (readOptProp ruleMaxAttempts dispositionRule)
         then ([AddOrUpdate (finalState dispositionRule contact)],
               if persistOk env then counts1 else failed)
         else if \<not> persistOk env
         then ([AddOrUpdate (stateUpdateForCallAttempt (dateNow env) contact)], failed)
         else
           (case startCall env of
              StartOk \<Rightarrow>
                ([AddOrUpdate (stateUpdateForCallAttempt (dateNow env) contact),
                  StartCall (callParameters ctx (dateNow env) contact)],
                 counts1\<lparr>initiatedCalls := initiatedCalls counts1 + 1\<rparr>)
            | StartRejected \<Rightarrow>
                ([AddOrUpdate (stateUpdateForCallAttempt (dateNow env) contact),
                  StartCall (callParameters ctx (dateNow env) contact),
                  AddOrUpdate (revertState contact)],
                 failed)
            | StartThrows \<Rightarrow>
                ([AddOrUpdate (stateUpdateForCallAttempt (dateNow env) contact),
                  StartCall (callParameters ctx (dateNow env) contact),
                  AddOrUpdate (revertState contact)],
                 failed)))"

text \<open>The loop over the due contacts, each paired with what the environment answers
  for it.\<close>

fun processContacts ::
  "EngineContext \<Rightarrow> (string \<Rightarrow> EngineRule property) \<Rightarrow> EngineRule \<Rightarrow> EngineCounts
     \<Rightarrow> (ContactCadenceState \<times> ContactEnv) list \<Rightarrow> invocation list \<times> EngineCounts" where
  "processContacts ctx rules dflt counts [] = ([], counts)"
| "processContacts ctx rules dflt counts (ce # rest) =
     (let r = processContact ctx rules dflt counts ce;
          rs = processContacts ctx rules dflt (snd r) rest
      in (fst r @ fst rs, snd rs))"

definition isStartCall :: "invocation \<Rightarrow> bool" where
  "isStartCall i = (case i of StartCall ps \<Rightarrow> True | AddOrUpdate st \<Rightarrow> False)"

section \<open>Vocabulary of the properties\<close>

text \<open>The payload check at the top of the webhook handler; a payload that fails it is
  answered with status 400 before any decision is computed.\<close>

definition payloadValid :: "RetellCallOutcomePayload \<Rightarrow> bool" where
  "payloadValid event \<longleftrightarrow>
     twilio_call_sid event \<noteq> [] \<and> phone_number event \<noteq> [] \<and> disposition event \<noteq> []"

text \<open>The attempt count after the increment, the value the segment-shape handler
  resolves for an event, and its first short-circuit test.\<close>

definition incrementedCount :: "ContactCadenceState option \<Rightarrow> nat" where
  "incrementedCount fetched =
     (case fetched of Some f \<Rightarrow> orZero (attemptCount f) + 1 | None \<Rightarrow> 1)"

definition resolvedRule :: "RetellCallOutcomePayload \<Rightarrow> CadenceDispositionRule resolved" where
  "resolvedRule event =
     ruleOrDefault getCadenceRules rule_DEFAULT
       (orString (Some (disposition event)) ''DEFAULT'')"

definition terminalSuccess :: "RetellCallOutcomePayload \<Rightarrow> bool" where
  "terminalSuccess event \<longleftrightarrow>
     orString (Some (disposition event)) ''DEFAULT'' = ''APPOINTMENT_SCHEDULED_AI''
       \<or> readProp finalStatusOnExhaustion (resolvedRule event) = Some FINAL_COMPLETED_SUCCESS"

text \<open>The value the flat-shape handler resolves, and its first short-circuit test.\<close>

definition flatResolvedRule ::
  "(string \<Rightarrow> FlatDispositionRule property) \<Rightarrow> FlatDispositionRule
     \<Rightarrow> ContactCadenceState option \<Rightarrow> RetellCallOutcomePayload
     \<Rightarrow> FlatDispositionRule resolved" where
  "flatResolvedRule rules dflt fetched event =
     ruleOrDefault rules dflt
       (if incrementedCount fetched = 1 \<and> fetched = None then ''NEW_LEAD''
        else orString (Some (disposition event)) ''DEFAULT'')"

definition flatTerminalSuccess ::
  "(string \<Rightarrow> FlatDispositionRule property) \<Rightarrow> FlatDispositionRule
     \<Rightarrow> ContactCadenceState option \<Rightarrow> RetellCallOutcomePayload \<Rightarrow> bool" where
  "flatTerminalSuccess rules dflt fetched event \<longleftrightarrow>
     readProp flatFinalStatusOnExhaustion (flatResolvedRule rules dflt fetched event)
         = Some FINAL_COMPLETED_SUCCESS
       \<and> readProp maxAttempts (flatResolvedRule rules dflt fetched event) = Some 1"

text \<open>Time zones: one whose offset from UTC is the constant \<open>c\<close>; UTC itself; and a zone
  that falls back from four to five hours behind UTC at the instant \<open>1793512800000\<close>
  (06:00 UTC on 1 November 2026, as \<^verbatim>\<open>America/New_York\<close> does), a local time that occurs
  twice being read with the earlier offset.\<close>

definition fixedOffsetZone :: "int \<Rightarrow> TimeZone \<Rightarrow> bool" where
  "fixedOffsetZone c z \<longleftrightarrow> (\<forall>t. toLocal z t = t + c) \<and> (\<forall>l. fromLocal z l = l - c)"

definition utcZone :: TimeZone where
  "utcZone = \<lparr>toLocal = (\<lambda>t. t), fromLocal = (\<lambda>l. l)\<rparr>"

definition fallBackZone :: TimeZone where
  "fallBackZone =
     \<lparr>toLocal = (\<lambda>t. if t < 1793512800000 then t - 14400000 else t - 18000000),
      fromLocal = (\<lambda>l. if l < 1793512800000 - 14400000 then l + 14400000 else l + 18000000)\<rparr>"

text \<open>A record is due and callable at \<open>asOf\<close>.\<close>

definition dueAndCallable :: "int \<Rightarrow> ContactCadenceState \<Rightarrow> bool" where
  "dueAndCallable asOf r \<longleftrightarrow>
     (\<exists>t. nextCallTimestamp r = Some t \<and> t \<le> asOf)
       \<and> (status r = Some ACTIVE \<or> status r = Some PENDING)"

text \<open>The order of the prioritised query: priority ascending with a missing priority
  counted as \<^verbatim>\<open>Number.MAX_SAFE_INTEGER\<close>, then next call time ascending.\<close>

definition precedes :: "ContactCadenceState \<Rightarrow> ContactCadenceState \<Rightarrow> bool" where
  "precedes a b \<longleftrightarrow>
     orMax (hopperPriority a) < orMax (hopperPriority b)
       \<or> (orMax (hopperPriority a) = orMax (hopperPriority b)
            \<and> orMax (nextCallTimestamp a) \<le> orMax (nextCallTimestamp b))"

subsection \<open>Concrete inputs\<close>

definition outcomeEvent :: "string \<Rightarrow> int \<Rightarrow> RetellCallOutcomePayload" where
  "outcomeEvent d T =
     \<lparr>call_id = ''call_1'', twilio_call_sid = ''TEMP_1_+15550100'',
      phone_number = ''+15550100'', disposition = d, call_ended_timestamp = T\<rparr>"

definition contactA :: ContactCadenceState where
  "contactA =
     (blankState ''+15550101'')
       \<lparr>status := Some ACTIVE, attemptCount := Some 1, nextCallTimestamp := Some 1000,
        hopperPriority := Some 50\<rparr>"

definition contactB :: ContactCadenceState where
  "contactB =
     (blankState ''+15550102'')
       \<lparr>status := Some ACTIVE, attemptCount := Some 1, nextCallTimestamp := Some 1000,
        hopperPriority := Some 10\<rparr>"

definition docsAB :: "string \<Rightarrow> doc_result" where
  "docsAB =
     (\<lambda>p. NotFound)(''+15550101'' := Found contactA, ''+15550102'' := Found contactB)"

definition pageAB :: page where
  "pageAB =
     Page [\<lparr>dataPhoneNumber = Some ''+15550101''\<rparr>, \<lparr>dataPhoneNumber = Some ''+15550102''\<rparr>]
       False None"

definition exhaustedContact :: ContactCadenceState where
  "exhaustedContact =
     (blankState ''+15550103'')
       \<lparr>status := Some ACTIVE, attemptCount := Some 5,
        lastCallDisposition := Some ''NO_ANSWER'', nextCallTimestamp := Some 1000\<rparr>"

definition engineCtx :: EngineContext where
  "engineCtx = \<lparr>CADENCE_CALLER_ID = ''+15550000'', RETELL_AGENT_ID_MEDICARE = ''agent_1''\<rparr>"

definition calmEnv :: ContactEnv where
  "calmEnv = \<lparr>persistOk = True, dateNow = 1700000000000, startCall = StartOk\<rparr>"

definition zeroCounts :: EngineCounts where
  "zeroCounts = \<lparr>processedContacts = 0, initiatedCalls = 0, errorsEncountered = 0\<rparr>"


definition sampleLead :: LeadRow where
  "sampleLead =
     \<lparr>lead_phone_number = ''+15550100'', lead_metadata = None, first_name = Some ''Ada'',
      last_name = None, lead_state = Some ''NY'', zip_code = None, hopper_priority = Some 7\<rparr>"

definition emptyService :: SyncService where
  "emptyService = \<lparr>documents = (\<lambda>p. NotFound), listItems = []\<rparr>"

section \<open>Auxiliary facts\<close>

lemmas rule_defs =
  rule_NEW_LEAD_def rule_ANSWERING_MACHINE_def rule_NO_ANSWER_def rule_VOICEMAIL_DETECTED_def
  rule_BUSY_def rule_ERROR_CALL_FAILED_def rule_ERROR_INITIATION_FAILED_def
  rule_APPOINTMENT_SCHEDULED_AI_def rule_CALL_COMPLETED_HUMAN_HANDOFF_def rule_DEFAULT_def
  seg_def dhms_def minutesDelay_def

lemmas lookup_defs =
  getCadenceRules_def cadenceRulesLiteral_def getCadenceRulesFlat_def flatRulesLiteral_def
  objectLiteral_def objectPrototypeKeys_def ruleOrDefault_def readProp_def readOptProp_def
  flatRule_def flat_DEFAULT_def

lemmas outcome_defs =
  initialCallOutcome_def applyCadenceRule_def flatCallOutcome_def attemptAt_def
  countAtLeast_def Let_def orString_def orZero_def orEmpty_def nullish_def optString_def
  segmentMatches_def addDelay_def setLocal_def utcZone_def fallBackZone_def blankState_def
  outcomeEvent_def handoffDispositions_def sampleLead_def incrementedCount_def

lemmas query_defs =
  queryContactsDueForCall_def queryContactsDueForCallSorted_def scanItem_def collectItem_def
  getContactState_def isCallable_def isDue_def compareContacts_def orMax_def
  MAX_SAFE_INTEGER_def Let_def docsAB_def pageAB_def contactA_def contactB_def blankState_def

lemmas engine_defs =
  processContact_def Let_def segmentEngineRules_def segmentRuleView_def flatEngineRules_def
  flatRuleView_def lookup_defs engineRuleKey_def orString_def reachedMax_def finalState_def
  exhaustedContact_def calmEnv_def zeroCounts_def blankState_def

lemma assign_twice: "assign k v (assign k w m) = assign k v m"
  by (induction m) auto

lemma statusOfFinal_not_ACTIVE: "statusOfFinal f \<noteq> ACTIVE"
  by (cases f) simp_all

text \<open>The cadence-call branch of the segment-shape handler produces no state: its
  first statement assigns to the undeclared \<^verbatim>\<open>contactState\<close>.\<close>

lemma cadence_branch_throws: "cadenceCallOutcome z h s n p e = Inl ReferenceError"
  by (simp add: cadenceCallOutcome_def assignContactState_def)

lemma addDelay_fixedOffset:
  "fixedOffsetZone c z \<Longrightarrow>
     addDelay z t d
       = t + days d * 86400000 + hours d * 3600000 + minutes d * 60000 + seconds d * 1000"
  by (simp add: fixedOffsetZone_def addDelay_def setLocal_def)

lemma applyCadenceRule_ACTIVE:
  "applyCadenceRule z h n k cr c = Inr r \<Longrightarrow> status r = Some ACTIVE \<Longrightarrow>
     nextCallTimestamp r \<noteq> None"
  by (auto simp: applyCadenceRule_def statusOfFinal_not_ACTIVE
      split: if_splits option.splits)

text \<open>In the shipped segment table the only rule whose final status is
  \<^verbatim>\<open>COMPLETED_SUCCESS\<close> is the one of \<^verbatim>\<open>APPOINTMENT_SCHEDULED_AI\<close>.\<close>

lemma success_rule_unique:
  "readProp finalStatusOnExhaustion (ruleOrDefault getCadenceRules rule_DEFAULT k)
       = Some FINAL_COMPLETED_SUCCESS
     \<longleftrightarrow> k = ''APPOINTMENT_SCHEDULED_AI''"
  by (simp add: lookup_defs rule_defs)

lemma terminalSuccess_iff:
  "disposition e \<noteq> [] \<Longrightarrow>
     terminalSuccess e \<longleftrightarrow> disposition e = ''APPOINTMENT_SCHEDULED_AI''"
  by (simp add: terminalSuccess_def resolvedRule_def orString_def success_rule_unique)

lemma flat_key_prior:
  "flatResolvedRule rules dflt (Some f) e
     = ruleOrDefault rules dflt (orString (Some (disposition e)) ''DEFAULT'')"
  by (simp add: flatResolvedRule_def incrementedCount_def)

lemma foldl_invariant:
  assumes "Q acc" and "\<And>a x. Q a \<Longrightarrow> Q (f a x)"
  shows "Q (foldl f acc xs)"
  using assms by (induction xs arbitrary: acc) auto

lemma scanItem_due:
  assumes "\<forall>r \<in> set (fst acc). dueAndCallable asOf r"
  shows "\<forall>r \<in> set (fst (scanItem docs asOf acc item)). dueAndCallable asOf r"
  using assms
  by (auto simp: scanItem_def Let_def dueAndCallable_def isCallable_def
      split: option.splits sum.splits)

lemma scanPages_due:
  assumes "\<forall>r \<in> set (fst acc). dueAndCallable asOf r"
  shows "\<forall>r \<in> set (fst (scanPages docs asOf acc p)). dueAndCallable asOf r"
  using assms
proof (induction docs asOf acc p rule: scanPages.induct)
  case (1 docs asOf acc its key)
  then show ?case
    by (simp del: foldl.simps) (rule foldl_invariant, simp, rule scanItem_due)
next
  case (2 docs asOf acc its key nxt)
  have "\<forall>r \<in> set (fst (foldl (scanItem docs asOf) acc its)). dueAndCallable asOf r"
    using 2(2)
    by (intro foldl_invariant[where Q="\<lambda>a. \<forall>r \<in> set (fst a). dueAndCallable asOf r"]
          scanItem_due)
  then show ?case using 2(1) by simp
qed

lemma collectItem_callable:
  assumes "\<forall>r \<in> set (fst acc). isCallable (status r)"
  shows "\<forall>r \<in> set (fst (collectItem docs acc item)). isCallable (status r)"
  using assms
  by (auto simp: collectItem_def Let_def split: option.splits sum.splits)

lemma collectPages_callable:
  assumes "\<forall>r \<in> set (fst acc). isCallable (status r)"
  shows "\<forall>r \<in> set (fst (collectPages docs acc p)). isCallable (status r)"
  using assms
proof (induction docs acc p rule: collectPages.induct)
  case (1 docs acc its key)
  then show ?case
    by (simp del: foldl.simps) (rule foldl_invariant, simp, rule collectItem_callable)
next
  case (2 docs acc its key nxt)
  have "\<forall>r \<in> set (fst (foldl (collectItem docs) acc its)). isCallable (status r)"
    using 2(2)
    by (intro foldl_invariant[where Q="\<lambda>a. \<forall>r \<in> set (fst a). isCallable (status r)"]
          collectItem_callable)
  then show ?case using 2(1) by simp
qed

lemma set_insertBy: "set (insertBy cmp x ys) = insert x (set ys)"
  by (induction ys) auto

lemma set_sortBy: "set (sortBy cmp xs) = set xs"
  by (induction xs) (auto simp: set_insertBy)

lemma compare_precedes: "compareContacts a b \<le> 0 \<longleftrightarrow> precedes a b"
  by (auto simp: compareContacts_def precedes_def Let_def)

lemma precedes_total: "\<not> precedes a b \<Longrightarrow> precedes b a"
  by (auto simp: precedes_def)

lemma precedes_trans: "precedes a b \<Longrightarrow> precedes b c \<Longrightarrow> precedes a c"
  by (auto simp: precedes_def)

lemma sorted_insertBy:
  "sorted_wrt precedes ys \<Longrightarrow> sorted_wrt precedes (insertBy compareContacts x ys)"
proof (induction ys)
  case Nil
  then show ?case by simp
next
  case (Cons y ys)
  show ?case
  proof (cases "compareContacts x y \<le> 0")
    case True
    then have "precedes x y" by (simp add: compare_precedes)
    then show ?thesis using Cons.prems True by (auto intro: precedes_trans)
  next
    case False
    then have "precedes y x" using precedes_total by (simp add: compare_precedes)
    then show ?thesis using Cons False by (auto simp: set_insertBy)
  qed
qed

lemma sorted_sortBy: "sorted_wrt precedes (sortBy compareContacts xs)"
  by (induction xs) (auto intro: sorted_insertBy)

lemma query_AB:
  "queryContactsDueForCall docsAB (ListPage pageAB) 2000 = Inr [contactA, contactB]"
  by (simp add: query_defs)

section \<open>Cadence decision\<close>

text \<open>
  C2 (amended). The decision reads the clock. Two computations for the same prior state
  and the same outcome event both throw the same error or both return a record, and the
  two records agree on every field except those taken from the clock. For the flat-shape
  handler these are \<^verbatim>\<open>metadata.lastWebhookTimestamp\<close>, which holds the reading of the
  computation, and a scheduled \<^verbatim>\<open>nextCallTimestamp\<close>, which moves by the difference of
  the two scheduling readings. For the initial-call branch of the segment-shape handler
  it is \<^verbatim>\<open>nextCallTimestamp\<close> alone.
\<close>

theorem replay_equal_up_to_clock:
  "flatCallOutcome rules dflt h s2 n2 p e =
     map_sum id
       (\<lambda>r. r\<lparr>nextCallTimestamp := map_option (\<lambda>t. t + (n2 - n1)) (nextCallTimestamp r),
              metadata := Some (assign ''lastWebhookTimestamp'' (MTimestamp s2)
                                  (orEmpty (metadata r)))\<rparr>)
       (flatCallOutcome rules dflt h s1 n1 p e)
   \<and> map_sum id (\<lambda>r. r\<lparr>nextCallTimestamp := None\<rparr>)
        (initialCallOutcome z h n2 hopperId leadIdDb leadData e)
     = map_sum id (\<lambda>r. r\<lparr>nextCallTimestamp := None\<rparr>)
        (initialCallOutcome z h n1 hopperId leadIdDb leadData e)"
proof
  show "flatCallOutcome rules dflt h s2 n2 p e =
     map_sum id
       (\<lambda>r. r\<lparr>nextCallTimestamp := map_option (\<lambda>t. t + (n2 - n1)) (nextCallTimestamp r),
              metadata := Some (assign ''lastWebhookTimestamp'' (MTimestamp s2)
                                  (orEmpty (metadata r)))\<rparr>)
       (flatCallOutcome rules dflt h s1 n1 p e)"
    by (cases p)
      (auto simp: flatCallOutcome_def Let_def attemptAt_def orEmpty_def assign_twice
         split: option.splits)
  show "map_sum id (\<lambda>r. r\<lparr>nextCallTimestamp := None\<rparr>)
        (initialCallOutcome z h n2 hopperId leadIdDb leadData e)
     = map_sum id (\<lambda>r. r\<lparr>nextCallTimestamp := None\<rparr>)
        (initialCallOutcome z h n1 hopperId leadIdDb leadData e)"
    by (simp add: initialCallOutcome_def Let_def applyCadenceRule_def split: option.splits)
qed

text \<open>The theorem at a first \<^verbatim>\<open>NO_ANSWER\<close> outcome, processed by the flat-shape handler at
  clock readings 1000 and 2000.\<close>

theorem replay_equal_up_to_clock_witness:
  "map_sum id nextCallTimestamp
     (flatCallOutcome getCadenceRulesFlat flat_DEFAULT (handoffDispositions None) 1000 1000
        None (outcomeEvent ''NO_ANSWER'' 0)) = Inr (Some 3601000)
   \<and> flatCallOutcome getCadenceRulesFlat flat_DEFAULT (handoffDispositions None) 2000 2000
        None (outcomeEvent ''NO_ANSWER'' 0)
     = map_sum id
         (\<lambda>r. r\<lparr>nextCallTimestamp := Some 3602000,
                metadata := Some [(''retellCallId'', MString ''call_1''),
                                  (''lastWebhookTimestamp'', MTimestamp 2000)]\<rparr>)
         (flatCallOutcome getCadenceRulesFlat flat_DEFAULT (handoffDispositions None) 1000 1000
            None (outcomeEvent ''NO_ANSWER'' 0))"
  using replay_equal_up_to_clock
          [of getCadenceRulesFlat flat_DEFAULT "handoffDispositions None" 2000 2000 None
              "outcomeEvent ''NO_ANSWER'' 0" 1000 1000]
  by (simp add: outcome_defs lookup_defs)

text \<open>
  C2 as stated fails: the flat-shape handler, given no prior state and the same outcome
  event at clock readings 1000 and 2000, returns different records.
\<close>

theorem replay_differs_across_clock_readings:
  "flatCallOutcome getCadenceRulesFlat flat_DEFAULT (handoffDispositions None) 1000 1000
     None (outcomeEvent ''NO_ANSWER'' 0)
   \<noteq> flatCallOutcome getCadenceRulesFlat flat_DEFAULT (handoffDispositions None) 2000 2000
       None (outcomeEvent ''NO_ANSWER'' 0)"
  by (simp add: outcome_defs lookup_defs)

text \<open>
  C3 (amended). For a lead with no prior state (the initial-call branch) and an outcome
  of category \<^verbatim>\<open>NO_ANSWER\<close> that is not configured as a hand-off, in a process whose time
  zone has a fixed offset from UTC, the decision yields \<^verbatim>\<open>attemptCount = 1\<close>,
  \<^verbatim>\<open>status = ACTIVE\<close> and \<^verbatim>\<open>nextCallTimestamp\<close> equal to the clock reading of the
  computation plus 20 minutes; the end time of the call is copied to
  \<^verbatim>\<open>lastAttemptTimestamp\<close> and does not enter the schedule.
\<close>

theorem bootstrap_no_answer:
  assumes "disposition e = ''NO_ANSWER''" and "''NO_ANSWER'' \<notin> set h"
    and "fixedOffsetZone c z"
  shows "\<exists>r. initialCallOutcome z h n hopperId leadIdDb leadData e = Inr r
           \<and> attemptCount r = Some 1 \<and> status r = Some ACTIVE
           \<and> nextCallTimestamp r = Some (n + 20 * 60000)
           \<and> lastAttemptTimestamp r = Some (call_ended_timestamp e)"
  using assms(1,2) addDelay_fixedOffset[OF assms(3)]
  by (simp add: initialCallOutcome_def Let_def applyCadenceRule_def orString_def
      getCadenceRules_def cadenceRulesLiteral_def objectLiteral_def ruleOrDefault_def
      readProp_def readOptProp_def rule_NO_ANSWER_def seg_def minutesDelay_def
      segmentMatches_def orZero_def)

text \<open>The theorem for a call that ended at time 0 and is processed at time 5000, in
  UTC and under the default hand-off list.\<close>

theorem bootstrap_no_answer_witness:
  "disposition (outcomeEvent ''NO_ANSWER'' 0) = ''NO_ANSWER''
   \<and> ''NO_ANSWER'' \<notin> set (handoffDispositions None)
   \<and> fixedOffsetZone 0 utcZone
   \<and> map_sum id attemptCount
       (initialCallOutcome utcZone (handoffDispositions None) 5000 12 34 sampleLead
          (outcomeEvent ''NO_ANSWER'' 0)) = Inr (Some 1)
   \<and> map_sum id status
       (initialCallOutcome utcZone (handoffDispositions None) 5000 12 34 sampleLead
          (outcomeEvent ''NO_ANSWER'' 0)) = Inr (Some ACTIVE)
   \<and> map_sum id nextCallTimestamp
       (initialCallOutcome utcZone (handoffDispositions None) 5000 12 34 sampleLead
          (outcomeEvent ''NO_ANSWER'' 0)) = Inr (Some 1205000)"
proof -
  have d: "disposition (outcomeEvent ''NO_ANSWER'' 0) = ''NO_ANSWER''"
    by (simp add: outcomeEvent_def)
  have h: "''NO_ANSWER'' \<notin> set (handoffDispositions None)"
    by (simp add: handoffDispositions_def orString_def)
  have z: "fixedOffsetZone 0 utcZone"
    by (simp add: fixedOffsetZone_def utcZone_def)
  show ?thesis
    using d h z bootstrap_no_answer [OF d h z, of 5000 12 34 sampleLead] by auto
qed

text \<open>
  C3 as stated fails, at three inputs. A call that ended at \<open>T = 0\<close> and is processed at
  time 5000 is not scheduled at \<open>T\<close> plus 20 minutes. With \<^verbatim>\<open>NO_ANSWER\<close> configured as a
  hand-off the status is \<^verbatim>\<open>PAUSED\<close>. In a zone that falls back one hour, a call ended
  and processed ten minutes before the change is scheduled 80 minutes later.
\<close>

theorem bootstrap_schedule_counterexample:
  "map_sum id nextCallTimestamp
     (initialCallOutcome utcZone (handoffDispositions None) 5000 12 34 sampleLead
        (outcomeEvent ''NO_ANSWER'' 0))
     \<noteq> Inr (Some (call_ended_timestamp (outcomeEvent ''NO_ANSWER'' 0) + 20 * 60000))
   \<and> map_sum id status
       (initialCallOutcome utcZone (handoffDispositions (Some ''NO_ANSWER'')) 5000 12 34
          sampleLead (outcomeEvent ''NO_ANSWER'' 0))
     = Inr (Some PAUSED)
   \<and> map_sum id nextCallTimestamp
       (initialCallOutcome fallBackZone (handoffDispositions None) 1793512200000 12 34
          sampleLead (outcomeEvent ''NO_ANSWER'' 1793512200000))
     = Inr (Some (1793512200000 + 80 * 60000))"
  by (simp add: outcome_defs lookup_defs rule_defs)


text \<open>
  C7 (amended). For every prior contact state, whatever its attempt count (the
  flat-shape handler), and for a lead with no prior state (the initial-call branch, on a
  payload that passed the handler's validation), an outcome whose category is in the
  configured hand-off list and that does not pass the handler's terminal-success test,
  which comes first, yields \<^verbatim>\<open>status = PAUSED\<close> with \<^verbatim>\<open>nextCallTimestamp\<close> cleared.
\<close>

theorem handoff_pauses:
  "(disposition e \<in> set h \<and> \<not> flatTerminalSuccess rules dflt p e
      \<longrightarrow> (\<exists>r. flatCallOutcome rules dflt h s n p e = Inr r
             \<and> status r = Some PAUSED \<and> nextCallTimestamp r = None))
   \<and> (payloadValid e \<and> disposition e \<in> set h \<and> \<not> terminalSuccess e
      \<longrightarrow> (\<exists>r. initialCallOutcome z h n hopperId leadIdDb leadData e = Inr r
             \<and> status r = Some PAUSED \<and> nextCallTimestamp r = None))"
proof (intro conjI impI)
  assume a: "disposition e \<in> set h \<and> \<not> flatTerminalSuccess rules dflt p e"
  then show "\<exists>r. flatCallOutcome rules dflt h s n p e = Inr r
             \<and> status r = Some PAUSED \<and> nextCallTimestamp r = None"
    by (cases p)
      (auto simp: flatCallOutcome_def flatTerminalSuccess_def flatResolvedRule_def
         incrementedCount_def Let_def)
next
  assume b: "payloadValid e \<and> disposition e \<in> set h \<and> \<not> terminalSuccess e"
  then have ne: "disposition e \<noteq> []" and m: "disposition e \<in> set h"
    and ns: "\<not> terminalSuccess e"
    by (simp_all add: payloadValid_def)
  have key: "orString (Some (disposition e)) ''DEFAULT'' = disposition e"
    using ne by (simp add: orString_def)
  show "\<exists>r. initialCallOutcome z h n hopperId leadIdDb leadData e = Inr r
             \<and> status r = Some PAUSED \<and> nextCallTimestamp r = None"
    using m ns
    by (simp add: initialCallOutcome_def Let_def applyCadenceRule_def terminalSuccess_def
        resolvedRule_def key)
qed

text \<open>The theorem for \<^verbatim>\<open>CALL_TRANSFERRED\<close> under the default hand-off list: in the
  flat-shape handler for a contact that has five attempts behind it, and in the
  initial-call branch.\<close>

theorem handoff_pauses_witness:
  "disposition (outcomeEvent ''CALL_TRANSFERRED'' 0) \<in> set (handoffDispositions None)
   \<and> \<not> flatTerminalSuccess getCadenceRulesFlat flat_DEFAULT (Some exhaustedContact)
         (outcomeEvent ''CALL_TRANSFERRED'' 0)
   \<and> attemptCount exhaustedContact = Some 5
   \<and> map_sum id status
       (flatCallOutcome getCadenceRulesFlat flat_DEFAULT (handoffDispositions None) 1000 1000
          (Some exhaustedContact) (outcomeEvent ''CALL_TRANSFERRED'' 0)) = Inr (Some PAUSED)
   \<and> map_sum id nextCallTimestamp
       (flatCallOutcome getCadenceRulesFlat flat_DEFAULT (handoffDispositions None) 1000 1000
          (Some exhaustedContact) (outcomeEvent ''CALL_TRANSFERRED'' 0)) = Inr None
   \<and> payloadValid (outcomeEvent ''CALL_TRANSFERRED'' 0)
   \<and> \<not> terminalSuccess (outcomeEvent ''CALL_TRANSFERRED'' 0)
   \<and> map_sum id status
       (initialCallOutcome utcZone (handoffDispositions None) 5000 12 34 sampleLead
          (outcomeEvent ''CALL_TRANSFERRED'' 0)) = Inr (Some PAUSED)
   \<and> map_sum id nextCallTimestamp
       (initialCallOutcome utcZone (handoffDispositions None) 5000 12 34 sampleLead
          (outcomeEvent ''CALL_TRANSFERRED'' 0)) = Inr None"
proof -
  have m: "disposition (outcomeEvent ''CALL_TRANSFERRED'' 0) \<in> set (handoffDispositions None)"
    by (simp add: outcomeEvent_def handoffDispositions_def orString_def)
  have f: "\<not> flatTerminalSuccess getCadenceRulesFlat flat_DEFAULT (Some exhaustedContact)
         (outcomeEvent ''CALL_TRANSFERRED'' 0)"
    by (simp add: flatTerminalSuccess_def flat_key_prior outcomeEvent_def orString_def lookup_defs)
  have c: "attemptCount exhaustedContact = Some 5"
    by (simp add: exhaustedContact_def blankState_def)
  have v: "payloadValid (outcomeEvent ''CALL_TRANSFERRED'' 0)"
    by (simp add: payloadValid_def outcomeEvent_def)
  have t: "\<not> terminalSuccess (outcomeEvent ''CALL_TRANSFERRED'' 0)"
    by (simp add: terminalSuccess_iff outcomeEvent_def)
  show ?thesis
    using m f c v t
      handoff_pauses
        [of "outcomeEvent ''CALL_TRANSFERRED'' 0" "handoffDispositions None"
            getCadenceRulesFlat flat_DEFAULT "Some exhaustedContact" 1000 1000 utcZone
            12 34 sampleLead]
      handoff_pauses
        [of "outcomeEvent ''CALL_TRANSFERRED'' 0" "handoffDispositions None"
            getCadenceRulesFlat flat_DEFAULT "Some exhaustedContact" 1000 5000 utcZone
            12 34 sampleLead]
    by auto
qed

text \<open>
  C7 as stated fails: with \<^verbatim>\<open>RETELL_HANDOFF_DISPOSITIONS\<close> set to
  \<^verbatim>\<open>APPOINTMENT_SCHEDULED_AI,CALL_TRANSFERRED\<close>, the outcome \<^verbatim>\<open>APPOINTMENT_SCHEDULED_AI\<close>
  is in the hand-off list and the decision of both handlers is \<^verbatim>\<open>COMPLETED_SUCCESS\<close>.
\<close>

theorem handoff_overridden_by_success:
  "disposition (outcomeEvent ''APPOINTMENT_SCHEDULED_AI'' 0)
     \<in> set (handoffDispositions (Some ''APPOINTMENT_SCHEDULED_AI,CALL_TRANSFERRED''))
   \<and> map_sum id status
       (flatCallOutcome getCadenceRulesFlat flat_DEFAULT
          (handoffDispositions (Some ''APPOINTMENT_SCHEDULED_AI,CALL_TRANSFERRED''))
          1000 1000 (Some contactA) (outcomeEvent ''APPOINTMENT_SCHEDULED_AI'' 0))
     = Inr (Some COMPLETED_SUCCESS)
   \<and> map_sum id status
       (initialCallOutcome utcZone
          (handoffDispositions (Some ''APPOINTMENT_SCHEDULED_AI,CALL_TRANSFERRED''))
          5000 12 34 sampleLead (outcomeEvent ''APPOINTMENT_SCHEDULED_AI'' 0))
     = Inr (Some COMPLETED_SUCCESS)"
  by (simp add: outcome_defs lookup_defs rule_defs contactA_def)




text \<open>
  C9. Every record produced by a decision computation satisfies: if its status is
  \<^verbatim>\<open>ACTIVE\<close> then its \<^verbatim>\<open>nextCallTimestamp\<close> is set. The computations that produce a record
  are the initial-call branch of the segment-shape handler and the flat-shape handler
  over any rule table, each whenever it returns one.
\<close>

theorem active_has_next_call:
  "(initialCallOutcome z h n hopperId leadIdDb leadData e = Inr r \<and> status r = Some ACTIVE
      \<longrightarrow> nextCallTimestamp r \<noteq> None)
   \<and> (flatCallOutcome rules dflt h s n p e = Inr r' \<and> status r' = Some ACTIVE
      \<longrightarrow> nextCallTimestamp r' \<noteq> None)"
proof (intro conjI impI)
  assume "initialCallOutcome z h n hopperId leadIdDb leadData e = Inr r \<and> status r = Some ACTIVE"
  then show "nextCallTimestamp r \<noteq> None"
    by (auto simp: initialCallOutcome_def Let_def dest: applyCadenceRule_ACTIVE)
next
  assume "flatCallOutcome rules dflt h s n p e = Inr r' \<and> status r' = Some ACTIVE"
  then show "nextCallTimestamp r' \<noteq> None"
    by (auto simp: flatCallOutcome_def Let_def attemptAt_def statusOfFinal_not_ACTIVE
        split: if_splits option.splits)
qed


text \<open>The theorem at a first \<^verbatim>\<open>NO_ANSWER\<close> outcome, for which both handlers return an
  \<^verbatim>\<open>ACTIVE\<close> record.\<close>

theorem active_has_next_call_witness:
  "initialCallOutcome utcZone (handoffDispositions None) 5000 12 34 sampleLead
       (outcomeEvent ''NO_ANSWER'' 0)
     = Inr (projr (initialCallOutcome utcZone (handoffDispositions None) 5000 12 34 sampleLead
                     (outcomeEvent ''NO_ANSWER'' 0)))
   \<and> status (projr (initialCallOutcome utcZone (handoffDispositions None) 5000 12 34 sampleLead
                     (outcomeEvent ''NO_ANSWER'' 0))) = Some ACTIVE
   \<and> nextCallTimestamp
       (projr (initialCallOutcome utcZone (handoffDispositions None) 5000 12 34 sampleLead
                 (outcomeEvent ''NO_ANSWER'' 0))) \<noteq> None
   \<and> flatCallOutcome getCadenceRulesFlat flat_DEFAULT (handoffDispositions None) 1000 1000
        None (outcomeEvent ''NO_ANSWER'' 0)
     = Inr (projr (flatCallOutcome getCadenceRulesFlat flat_DEFAULT (handoffDispositions None)
                     1000 1000 None (outcomeEvent ''NO_ANSWER'' 0)))
   \<and> status (projr (flatCallOutcome getCadenceRulesFlat flat_DEFAULT (handoffDispositions None)
                     1000 1000 None (outcomeEvent ''NO_ANSWER'' 0))) = Some ACTIVE
   \<and> nextCallTimestamp
       (projr (flatCallOutcome getCadenceRulesFlat flat_DEFAULT (handoffDispositions None)
                 1000 1000 None (outcomeEvent ''NO_ANSWER'' 0))) \<noteq> None"
proof -
  have a: "initialCallOutcome utcZone (handoffDispositions None) 5000 12 34 sampleLead
       (outcomeEvent ''NO_ANSWER'' 0)
     = Inr (projr (initialCallOutcome utcZone (handoffDispositions None) 5000 12 34 sampleLead
                     (outcomeEvent ''NO_ANSWER'' 0)))
   \<and> status (projr (initialCallOutcome utcZone (handoffDispositions None) 5000 12 34 sampleLead
                     (outcomeEvent ''NO_ANSWER'' 0))) = Some ACTIVE"
    by (simp add: outcome_defs lookup_defs rule_defs)
  have b: "flatCallOutcome getCadenceRulesFlat flat_DEFAULT (handoffDispositions None) 1000 1000
        None (outcomeEvent ''NO_ANSWER'' 0)
     = Inr (projr (flatCallOutcome getCadenceRulesFlat flat_DEFAULT (handoffDispositions None)
                     1000 1000 None (outcomeEvent ''NO_ANSWER'' 0)))
   \<and> status (projr (flatCallOutcome getCadenceRulesFlat flat_DEFAULT (handoffDispositions None)
                     1000 1000 None (outcomeEvent ''NO_ANSWER'' 0))) = Some ACTIVE"
    by (simp add: outcome_defs lookup_defs rule_defs)
  show ?thesis
    using a b
      active_has_next_call
        [where z = utcZone and h = "handoffDispositions None" and n = 5000 and hopperId = 12
           and leadIdDb = 34 and leadData = sampleLead and e = "outcomeEvent ''NO_ANSWER'' 0"
           and r = "projr (initialCallOutcome utcZone (handoffDispositions None) 5000 12 34
                             sampleLead (outcomeEvent ''NO_ANSWER'' 0))"]
      active_has_next_call
        [where h = "handoffDispositions None" and n = 1000 and e = "outcomeEvent ''NO_ANSWER'' 0"
           and rules = getCadenceRulesFlat and dflt = flat_DEFAULT and s = 1000 and p = None
           and r' = "projr (flatCallOutcome getCadenceRulesFlat flat_DEFAULT
                              (handoffDispositions None) 1000 1000 None
                              (outcomeEvent ''NO_ANSWER'' 0))"]
    by blast
qed

section \<open>Due query\<close>

text \<open>
  C5. For every query instant \<open>asOf\<close>, every content of the documents and every list
  response, both revisions of \<^verbatim>\<open>queryContactsDueForCall\<close> return only records whose
  \<^verbatim>\<open>nextCallTimestamp\<close> is set and not later than \<open>asOf\<close> and whose status is \<^verbatim>\<open>ACTIVE\<close>
  or \<^verbatim>\<open>PENDING\<close>.
\<close>

theorem queryDue_only_due_and_callable:
  assumes "queryContactsDueForCall docs resp asOf = Inr rs
         \<or> queryContactsDueForCallSorted docs resp asOf = Inr rs"
    and "r \<in> set rs"
  shows "(\<exists>t. nextCallTimestamp r = Some t \<and> t \<le> asOf)
       \<and> (status r = Some ACTIVE \<or> status r = Some PENDING)"
  using assms(1)
proof
  assume q: "queryContactsDueForCall docs resp asOf = Inr rs"
  have "\<forall>r \<in> set rs. dueAndCallable asOf r"
  proof (cases resp)
    case (ListPage p)
    then have "rs = fst (scanPages docs asOf ([], {}) p)"
      using q by (simp add: queryContactsDueForCall_def)
    then show ?thesis using scanPages_due[of "([], {})" asOf docs p] by simp
  qed (use q in \<open>auto simp: queryContactsDueForCall_def\<close>)
  then show ?thesis using assms(2) by (simp add: dueAndCallable_def)
next
  assume q: "queryContactsDueForCallSorted docs resp asOf = Inr rs"
  have "\<forall>r \<in> set rs. isCallable (status r) \<and> isDue asOf r"
  proof (cases resp)
    case (ListPage p)
    then have "rs = filter (isDue asOf)
                      (sortBy compareContacts (fst (collectPages docs ([], {}) p)))"
      using q by (simp add: queryContactsDueForCallSorted_def)
    then show ?thesis using collectPages_callable[of "([], {})" docs p]
      by (simp add: set_sortBy)
  qed (use q in \<open>auto simp: queryContactsDueForCallSorted_def\<close>)
  then show ?thesis using assms(2)
    by (auto simp: isCallable_def isDue_def split: option.splits)
qed

text \<open>The theorem for two active contacts due at time 1000, queried at time 2000.\<close>

theorem queryDue_only_due_and_callable_witness:
  "queryContactsDueForCall docsAB (ListPage pageAB) 2000 = Inr [contactA, contactB]
   \<and> contactB \<in> set [contactA, contactB]
   \<and> nextCallTimestamp contactB = Some 1000 \<and> (1000 :: int) \<le> 2000
   \<and> status contactB = Some ACTIVE"
proof -
  have m: "contactB \<in> set [contactA, contactB]" by simp
  have "(\<exists>t. nextCallTimestamp contactB = Some t \<and> t \<le> 2000)
       \<and> (status contactB = Some ACTIVE \<or> status contactB = Some PENDING)"
    using queryDue_only_due_and_callable [OF disjI1 [OF query_AB] m] .
  then show ?thesis
    using query_AB by (simp add: contactB_def blankState_def)
qed

text \<open>The revision with prioritisation returns its result in the order \<^const>\<open>precedes\<close>:
  priority ascending, a record without priority counted as the largest safe integer,
  ties by next call time ascending.\<close>

lemma sorted_revision_is_sorted:
  "queryContactsDueForCallSorted docs resp asOf = Inr rs \<Longrightarrow> sorted_wrt precedes rs"
  by (cases resp) (auto simp: queryContactsDueForCallSorted_def sorted_sortBy sorted_wrt_filter)

lemma sorted_revision_AB:
  "queryContactsDueForCallSorted docsAB (ListPage pageAB) 2000 = Inr [contactB, contactA]"
  by (simp add: query_defs)

text \<open>
  C6 fails on \<^verbatim>\<open>queryContactsDueForCall\<close> of \<^verbatim>\<open>src/functions/manage_contact_state.ts\<close>,
  which has no sorting step and returns the due records in list order: with contact A
  (priority 50) before contact B (priority 10) in the active list, both due, it returns
  A before B. The revision with prioritisation returns B before A on the same input
  (\<open>sorted_revision_AB\<close>).
\<close>

theorem queryDue_returns_list_order:
  "queryContactsDueForCall docsAB (ListPage pageAB) 2000 = Inr [contactA, contactB]
   \<and> hopperPriority contactA = Some 50 \<and> hopperPriority contactB = Some 10
   \<and> \<not> sorted_wrt precedes [contactA, contactB]"
  by (simp add: query_defs precedes_def)

section \<open>Scheduler loop\<close>

text \<open>With a rule table whose rules define \<^verbatim>\<open>maxAttempts\<close> (the flat shape), a contact that
  has reached it gets the final state written and nothing else.\<close>

lemma engine_exhaustion:
  assumes "readOptProp ruleMaxAttempts (ruleOrDefault rules dflt (engineRuleKey contact)) = Some m"
    and "attemptCount contact = Some a" and "m \<le> a"
  shows "fst (processContact ctx rules dflt counts (contact, env))
       = [AddOrUpdate (finalState (ruleOrDefault rules dflt (engineRuleKey contact)) contact)]"
  using assms by (simp add: processContact_def Let_def reachedMax_def)

lemma engine_exhaustion_flat:
  "processContact engineCtx flatEngineRules (flatRuleView flat_DEFAULT) zeroCounts
     (exhaustedContact, calmEnv)
   = ([AddOrUpdate ((blankState ''+15550103'')\<lparr>status := Some COMPLETED_EXHAUSTED\<rparr>)],
      \<lparr>processedContacts = 1, initiatedCalls = 0, errorsEncountered = 0\<rparr>)"
  by (simp add: engine_defs)

text \<open>With the segment table no rule has \<^verbatim>\<open>maxAttempts\<close>, the test is false for every
  contact, and every contact whose pre-call write succeeds is dialled.\<close>

lemma segment_rules_have_no_max:
  "readOptProp ruleMaxAttempts
     (ruleOrDefault segmentEngineRules (segmentRuleView rule_DEFAULT) key) = None"
  by (simp add: ruleOrDefault_def readOptProp_def segmentEngineRules_def segmentRuleView_def
      getCadenceRules_def objectLiteral_def split: option.splits)

lemma segment_rules_always_dial:
  assumes "persistOk env"
  shows "StartCall (callParameters ctx (dateNow env) contact)
           \<in> set (fst (processContact ctx segmentEngineRules (segmentRuleView rule_DEFAULT)
                         counts (contact, env)))"
  using assms
  by (simp add: processContact_def Let_def reachedMax_def segment_rules_have_no_max
      split: option.splits start_result.splits)

text \<open>The same happens with the flat table when the last outcome names an inherited
  property.\<close>

lemma engine_inherited_key_dials:
  "processContact engineCtx flatEngineRules (flatRuleView flat_DEFAULT) zeroCounts
     (exhaustedContact\<lparr>lastCallDisposition := Some ''constructor''\<rparr>, calmEnv)
   = ([AddOrUpdate (stateUpdateForCallAttempt 1700000000000 exhaustedContact),
       StartCall (callParameters engineCtx 1700000000000 exhaustedContact)],
      \<lparr>processedContacts = 1, initiatedCalls = 1, errorsEncountered = 0\<rparr>)"
  by (simp add: engine_defs stateUpdateForCallAttempt_def callParameters_def
      newCurrentCallSid_def)

text \<open>
  C4 fails on the engine run with the rule table of \<^verbatim>\<open>src/utils/cadence_rules.ts\<close>: a due
  contact with five attempts whose last outcome is \<^verbatim>\<open>NO_ANSWER\<close> (three delay entries) is
  not moved to \<^verbatim>\<open>COMPLETED_EXHAUSTED\<close>; the engine writes the in-flight token and places
  a call. With the flat table the same contact is exhausted (\<open>engine_exhaustion_flat\<close>).
\<close>

theorem engine_dials_exhausted_contact:
  "processContact engineCtx segmentEngineRules (segmentRuleView rule_DEFAULT) zeroCounts
     (exhaustedContact, calmEnv)
   = ([AddOrUpdate (stateUpdateForCallAttempt 1700000000000 exhaustedContact),
       StartCall (callParameters engineCtx 1700000000000 exhaustedContact)],
      \<lparr>processedContacts = 1, initiatedCalls = 1, errorsEncountered = 0\<rparr>)"
  by (simp add: engine_defs)

section \<open>Writes to the store\<close>

text \<open>
  C10. \<^verbatim>\<open>addOrUpdateContact\<close>, when the document update succeeds, stores exactly the
  state object it is given, whatever the document held before. The pre-call write of the
  scheduler loop carries only \<^verbatim>\<open>phoneNumber\<close> and \<^verbatim>\<open>currentCallSid\<close>, so after it the
  stored document has no \<^verbatim>\<open>attemptCount\<close>, \<^verbatim>\<open>status\<close>, \<^verbatim>\<open>nextCallTimestamp\<close>,
  \<^verbatim>\<open>lastCallDisposition\<close>, \<^verbatim>\<open>lastAttemptTimestamp\<close> or \<^verbatim>\<open>hopperPriority\<close>.
\<close>

theorem addOrUpdate_replaces_document:
  "getContactState (documents (fst (addOrUpdateContact True listOk svc st))) (phoneNumber st)
     = Inr (Some st)
   \<and> (\<exists>u. getContactState
              (documents (fst (addOrUpdateContact True listOk svc
                                 (stateUpdateForCallAttempt t contact))))
              (phoneNumber contact) = Inr (Some u)
          \<and> currentCallSid u = Some (newCurrentCallSid t contact)
          \<and> attemptCount u = None \<and> status u = None \<and> nextCallTimestamp u = None
          \<and> lastCallDisposition u = None \<and> lastAttemptTimestamp u = None
          \<and> hopperPriority u = None)"
  by (simp add: addOrUpdateContact_def Let_def stateUpdateForCallAttempt_def blankState_def
      getContactState_def)

text \<open>The theorem on a store that holds contact A (one attempt, \<^verbatim>\<open>ACTIVE\<close>, next call at
  1000): after the pre-call write the document read back has none of these.\<close>

theorem addOrUpdate_replaces_document_witness:
  "getContactState (documents (emptyService\<lparr>documents := docsAB\<rparr>)) ''+15550101''
     = Inr (Some contactA)
   \<and> attemptCount contactA = Some 1 \<and> status contactA = Some ACTIVE
   \<and> getContactState
       (documents (fst (addOrUpdateContact True True (emptyService\<lparr>documents := docsAB\<rparr>)
                          (stateUpdateForCallAttempt 1700000000000 contactA))))
       ''+15550101''
     = Inr (Some ((blankState ''+15550101'')
                    \<lparr>currentCallSid := Some (newCurrentCallSid 1700000000000 contactA)\<rparr>))"
  using addOrUpdate_replaces_document
          [of True "emptyService\<lparr>documents := docsAB\<rparr>"
              "stateUpdateForCallAttempt 1700000000000 contactA" 1700000000000 contactA]
  by (simp add: stateUpdateForCallAttempt_def getContactState_def docsAB_def contactA_def
      blankState_def emptyService_def)

end
